theory Spec2Isabelle
  imports Main "HOL-Library.AList" "HOL-Library.Char_ord" "HOL-Library.List_Lexorder"
    "HOL-Library.Product_Lexorder"
begin

section \<open>Python values, exceptions and observable effects\<close>

text \<open>
  The values that travel through \<^verbatim>\<open>fmp.py\<close>: keyword arguments and the parsed JSON
  responses of the vendor API. A dict is an association list in insertion order with
  string keys; a finite float is the pair of its mantissa and binary exponent (no
  function of the repository computes with one).
\<close>

datatype pyval =
    PNone
  | PBool bool
  | PInt int
  | PFloat int int
  | PStr string
  | PList "pyval list"
  | PDict "(string \<times> pyval) list"

text \<open>Python's truth value testing, used by \<^verbatim>\<open>not x\<close> and \<^verbatim>\<open>if x\<close>.\<close>

fun truthy :: "pyval \<Rightarrow> bool" where
  "truthy PNone = False"
| "truthy (PBool b) = b"
| "truthy (PInt i) = (i \<noteq> 0)"
| "truthy (PFloat m e) = (m \<noteq> 0)"
| "truthy (PStr s) = (s \<noteq> [])"
| "truthy (PList xs) = (xs \<noteq> [])"
| "truthy (PDict d) = (d \<noteq> [])"

text \<open>
  An exception object raised by external code (the API method, a sink): whether it is an
  instance of \<^verbatim>\<open>Exception\<close> (a \<^verbatim>\<open>KeyboardInterrupt\<close> or \<^verbatim>\<open>SystemExit\<close> is not) and
  what \<^verbatim>\<open>str\<close> gives for it.
\<close>

datatype exn_obj = ExnObj (is_Exception: bool) (exn_str: string)

text \<open>
  What a function of the repository can end with instead of returning: an exception of
  external code passing through, or one that the interpreter or a library call raises.
\<close>

datatype pyexn =
    Raised exn_obj
  | UnboundLocalError string
  | KeyError string
  | TypeError string
  | ValueError string
  | AttributeError string

type_synonym params = "(string \<times> pyval) list"

text \<open>
  The API method is external and stateful (a network call): given its keyword arguments
  and the state of the world it raises or returns, and leaves a new state of the world.
\<close>

type_synonym 'w callable = "params \<Rightarrow> 'w \<Rightarrow> (exn_obj + pyval) \<times> 'w"

section \<open>Tables\<close>

text \<open>
  A pandas timestamp is its number of nanoseconds since the epoch (UTC), in pandas a
  64-bit integer; the model has no \<^verbatim>\<open>NaT\<close>. A cell of a table holds a value or \<^verbatim>\<open>NaN\<close>.
\<close>

type_synonym timestamp = int

datatype cell = NaN | Val pyval

text \<open>
  A \<^verbatim>\<open>DataFrame\<close>: the labels of its rows and its columns by name, each column the list
  of its cells from the first row to the last. The index is a list of numbers for a
  default \<^verbatim>\<open>RangeIndex\<close>, of (date, symbol) pairs for the two-level index of
  \<^verbatim>\<open>_set_dates_for_calendar\<close>.
\<close>

record 'i frame =
  index :: "'i list"
  columns :: "(string \<times> cell list) list"

text \<open>
  The flat price table of \<^verbatim>\<open>convert_price_to_df\<close>: a \<^verbatim>\<open>DataFrame\<close> that has a
  \<^verbatim>\<open>"date"\<close> column of timestamps and a \<^verbatim>\<open>"symbol"\<close> column of strings beside its other
  columns. Its own index is never read.
\<close>

record price_table =
  date_col :: "timestamp list"
  symbol_col :: "string list"
  data_cols :: "(string \<times> cell list) list"

text \<open>One row of the table \<^verbatim>\<open>gen_asset_metadata\<close> returns, column by column.\<close>

record asset =
  asset_symbol :: string
  asset_start_date :: timestamp
  asset_end_date :: timestamp
  asset_exchange :: string
  asset_auto_close_date :: timestamp

text \<open>
  What the generator \<^verbatim>\<open>parse_pricing_and_vol\<close> gives when it is run to its end: the
  pairs it yields and, when it does not finish, the exception that ends it.
\<close>

type_synonym bars = "(int \<times> timestamp frame) list \<times> pyexn option"

text \<open>
  The effects a caller can observe, in the order they happen. For \<^verbatim>\<open>fmp.py\<close>: each
  invocation of the method with its keyword arguments and its outcome, each call of
  \<^verbatim>\<open>logging.error\<close> and \<^verbatim>\<open>logging.info\<close>, each call of \<^verbatim>\<open>sleep\<close>. For \<^verbatim>\<open>ingest.py\<close>:
  each call of the logbook logger and each call of a sink's \<^verbatim>\<open>write\<close> with the tables
  passed to it.
\<close>

datatype event =
    Invoke params "exn_obj + pyval"
  | LoggingError string
  | LoggingInfo string
  | Sleep int
  | LogbookInfo string
  | AssetDbWrite "asset list" "nat frame"
  | DailyBarWrite bars bool
  | AdjustmentWrite "nat frame" "nat frame"

record 'w state =
  world :: 'w
  trace :: "event list"

definition emit :: "event \<Rightarrow> 'w state \<Rightarrow> 'w state" where
  "emit ev s = s\<lparr>trace := trace s @ [ev]\<rparr>"

fun is_Invoke :: "event \<Rightarrow> bool" where
  "is_Invoke (Invoke p outcome) = True"
| "is_Invoke ev = False"

fun is_Sleep :: "event \<Rightarrow> bool" where
  "is_Sleep (Sleep t) = True"
| "is_Sleep ev = False"

section \<open>fmp.py\<close>

definition FMP_API_RETRIES :: int where
  "FMP_API_RETRIES = 2"

definition FMP_API_SLEEP_TIME :: int where
  "FMP_API_SLEEP_TIME = 70"

definition FMP_API_KEY :: string where
  "FMP_API_KEY = ''yourkeyhere''"

definition FMP_DATE_FORMAT :: string where
  "FMP_DATE_FORMAT = ''%Y-%m-%d''"

subsection \<open>call_fmp\<close>

text \<open>\<^verbatim>\<open>d.get(k, default)\<close>.\<close>

definition dict_get :: "(string \<times> pyval) list \<Rightarrow> string \<Rightarrow> pyval \<Rightarrow> pyval" where
  "dict_get d k dflt = (case map_of d k of None \<Rightarrow> dflt | Some v \<Rightarrow> v)"

text \<open>
  The local variables of \<^verbatim>\<open>call_fmp\<close> that the loop assigns. A Python local is unbound
  until it is assigned (\<open>None\<close> here); \<^verbatim>\<open>str_error\<close>, once bound, holds Python's
  \<^verbatim>\<open>None\<close> (\<open>Some None\<close>) or an exception object.
\<close>

record locals =
  res :: "pyval option"
  str_error :: "exn_obj option option"

text \<open>How one pass through a loop body ends.\<close>

datatype 'a flow = Next 'a | Break 'a | Raise pyexn

text \<open>\<^verbatim>\<open>time.sleep\<close> refuses a negative length.\<close>

definition sleep :: "int \<Rightarrow> 'w state \<Rightarrow> pyexn option \<times> 'w state" where
  "sleep secs s =
     (if secs < 0 then (Some (ValueError ''sleep length must be non-negative''), s)
      else (None, emit (Sleep secs) s))"

text \<open>
  Lines 47 to 53, the statement after the \<^verbatim>\<open>try\<close>:
  \<^verbatim>\<open>if str_error: (if x < retries: sleep(sleep_time) else: raise str_error) else: break\<close>.
  Reading an unbound local raises \<^verbatim>\<open>UnboundLocalError\<close>; an exception object is truthy,
  \<^verbatim>\<open>None\<close> is not.
\<close>

definition if_str_error ::
  "int \<Rightarrow> int \<Rightarrow> int \<Rightarrow> locals \<Rightarrow> 'w state \<Rightarrow> locals flow \<times> 'w state" where
  "if_str_error retries sleep_time x l s =
     (case str_error l of
        None \<Rightarrow> (Raise (UnboundLocalError ''str_error''), s)
      | Some None \<Rightarrow> (Break l, s)
      | Some (Some e) \<Rightarrow>
          (if x < retries then
             (case sleep sleep_time s of
                (Some err, s') \<Rightarrow> (Raise err, s')
              | (None, s') \<Rightarrow> (Next l, s'))
           else (Raise (Raised e), s)))"

text \<open>
  Lines 40 to 53, one pass of the loop body for the loop variable \<open>x\<close>. The \<^verbatim>\<open>try\<close>
  invokes the method with the keyword arguments; on a return it binds \<^verbatim>\<open>res\<close> and sets
  \<^verbatim>\<open>str_error = None\<close>. The clause \<^verbatim>\<open>except Exception as str_error\<close> catches instances of
  \<^verbatim>\<open>Exception\<close> only, binds the exception to \<^verbatim>\<open>str_error\<close> for the handler, which logs
  it, and, as Python 3 defines \<^verbatim>\<open>except ... as\<close>, unbinds that name when the handler is
  left.
\<close>

definition attempt ::
  "'w callable \<Rightarrow> params \<Rightarrow> int \<Rightarrow> int \<Rightarrow> int \<Rightarrow> locals \<Rightarrow> 'w state
     \<Rightarrow> locals flow \<times> 'w state" where
  "attempt method params retries sleep_time x l s =
     (case method params (world s) of
        (outcome, w') \<Rightarrow>
          (let s1 = emit (Invoke params outcome) (s\<lparr>world := w'\<rparr>) in
           case outcome of
             Inr v \<Rightarrow>
               if_str_error retries sleep_time x (l\<lparr>res := Some v, str_error := Some None\<rparr>) s1
           | Inl e \<Rightarrow>
               (if is_Exception e then
                  (let l1 = l\<lparr>str_error := Some (Some e)\<rparr>;
                       s2 = emit (LoggingError (''FMP Request failed. '' @ exn_str e)) s1;
                       l2 = l1\<lparr>str_error := None\<rparr>
                   in if_str_error retries sleep_time x l2 s2)
                else (Raise (Raised e), s1))))"

text \<open>\<^verbatim>\<open>for x in range(0, retries)\<close> over the values of \<open>x\<close> still to come.\<close>

fun for_range ::
  "'w callable \<Rightarrow> params \<Rightarrow> int \<Rightarrow> int \<Rightarrow> int list \<Rightarrow> locals \<Rightarrow> 'w state
     \<Rightarrow> (pyexn + locals) \<times> 'w state" where
  "for_range method params retries sleep_time [] l s = (Inr l, s)"
| "for_range method params retries sleep_time (x # xs) l s =
     (case attempt method params retries sleep_time x l s of
        (Next l', s') \<Rightarrow> for_range method params retries sleep_time xs l' s'
      | (Break l', s') \<Rightarrow> (Inr l', s')
      | (Raise e, s') \<Rightarrow> (Inl e, s'))"

text \<open>
  Lines 36 and 37: \<^verbatim>\<open>if not params.get("apikey", None): params["apikey"] = FMP_API_KEY\<close>.
  The assignment stores into the dict object the caller passed.
\<close>

definition inject_apikey :: "params \<Rightarrow> params" where
  "inject_apikey params =
     (if \<not> truthy (dict_get params ''apikey'' PNone)
      then AList.update ''apikey'' (PStr FMP_API_KEY) params
      else params)"

text \<open>
  \<^verbatim>\<open>call_fmp(method, params, retries, sleep_time)\<close>. The result is what the call raises
  or returns, the caller's \<^verbatim>\<open>params\<close> dict as the call leaves it, and the state.
  \<^verbatim>\<open>range(0, retries)\<close> is \<open>[0..retries - 1]\<close>, empty when \<open>retries \<le> 0\<close>;
  \<^verbatim>\<open>return res\<close> reads the local \<^verbatim>\<open>res\<close>.
\<close>

definition call_fmp ::
  "'w callable \<Rightarrow> params \<Rightarrow> int \<Rightarrow> int \<Rightarrow> 'w state
     \<Rightarrow> (pyexn + pyval) \<times> params \<times> 'w state" where
  "call_fmp method params retries sleep_time s =
     (let params' = inject_apikey params
      in case for_range method params' retries sleep_time [0..retries - 1]
                \<lparr>res = None, str_error = None\<rparr> s of
           (Inl e, s') \<Rightarrow> (Inl e, params', s')
         | (Inr l, s') \<Rightarrow>
             (case res l of
                None \<Rightarrow> (Inl (UnboundLocalError ''res''), params', s')
              | Some v \<Rightarrow> (Inr v, params', s')))"

text \<open>How often the method has been invoked, and how often \<^verbatim>\<open>sleep\<close> was called.\<close>

definition invocations :: "'w state \<Rightarrow> nat" where
  "invocations s = length (filter is_Invoke (trace s))"

definition sleeps :: "'w state \<Rightarrow> nat" where
  "sleeps s = length (filter is_Sleep (trace s))"

subsection \<open>get_stocks_history\<close>

type_synonym raw_price_history = "(string \<times> pyval) list"

text \<open>
  \<^verbatim>\<open>str\<close> of a non-negative integer, for the f-string of the progress line; the digit
  looked up is always below ten.
\<close>

definition str_digit :: "nat \<Rightarrow> char" where
  "str_digit n = ''0123456789'' ! n"

function str_nat :: "nat \<Rightarrow> string" where
  "str_nat n = (if n < 10 then [str_digit n] else str_nat (n div 10) @ [str_digit (n mod 10)])"
  by pat_completeness auto
termination
  by (relation "measure id") auto

declare str_nat.simps [simp del]

text \<open>
  \<^verbatim>\<open>obj[key]\<close> for a string key: a dict looks the key up and raises \<^verbatim>\<open>KeyError\<close> when
  it is absent; no other value of the model takes a string subscript.
\<close>

fun subscript :: "pyval \<Rightarrow> string \<Rightarrow> pyexn + pyval" where
  "subscript (PDict d) k = (case map_of d k of None \<Rightarrow> Inl (KeyError k) | Some v \<Rightarrow> Inr v)"
| "subscript v k = Inl (TypeError ''subscript'')"

text \<open>
  Lines 85 to 95, the loop over \<^verbatim>\<open>enumerate(symbols)\<close>, on the pairs still to come;
  \<open>n\<close> is \<^verbatim>\<open>len(symbols)\<close>. Each pass builds a fresh \<^verbatim>\<open>params\<close> dict and calls
  \<^verbatim>\<open>call_fmp\<close> with the default retries and sleep time.
\<close>

fun for_symbols ::
  "'w callable \<Rightarrow> string \<Rightarrow> string \<Rightarrow> bool \<Rightarrow> nat \<Rightarrow> (nat \<times> string) list
     \<Rightarrow> raw_price_history \<Rightarrow> 'w state \<Rightarrow> (pyexn + raw_price_history) \<times> 'w state" where
  "for_symbols historical_price_full start_str end_str show_progress n [] hist s =
     (Inr hist, s)"
| "for_symbols historical_price_full start_str end_str show_progress n ((ix, symbol) # rest)
     hist s =
     (let s1 = (if show_progress then emit (LoggingInfo (str_nat ix @ ''/'' @ str_nat n)) s
                else s);
          params = [(''from_date'', PStr start_str), (''to_date'', PStr end_str),
                    (''symbol'', PStr symbol)]
      in case call_fmp historical_price_full params FMP_API_RETRIES FMP_API_SLEEP_TIME s1 of
           (Inl e, params', s2) \<Rightarrow> (Inl e, s2)
         | (Inr price_history, params', s2) \<Rightarrow>
             (if \<not> truthy price_history then
                for_symbols historical_price_full start_str end_str show_progress n rest hist s2
              else
                (case subscript price_history ''historical'' of
                   Inl e \<Rightarrow> (Inl e, s2)
                 | Inr price_history' \<Rightarrow>
                     for_symbols historical_price_full start_str end_str show_progress n rest
                       (AList.update symbol price_history' hist) s2)))"

text \<open>
  \<^verbatim>\<open>get_stocks_history(symbols, start, end, show_progress)\<close>. The API method
  \<^verbatim>\<open>fmpsdk.historical_price_full\<close> and pandas' \<^verbatim>\<open>Timestamp.strftime\<close> are external and
  are parameters; a timestamp is its number of nanoseconds since the epoch.
\<close>

definition get_stocks_history ::
  "'w callable \<Rightarrow> (string \<Rightarrow> timestamp \<Rightarrow> string) \<Rightarrow> string list \<Rightarrow> timestamp \<Rightarrow> timestamp
     \<Rightarrow> bool \<Rightarrow> 'w state \<Rightarrow> (pyexn + raw_price_history) \<times> 'w state" where
  "get_stocks_history historical_price_full strftime symbols start end show_progress s =
     (let end_str = strftime FMP_DATE_FORMAT end;
          start_str = strftime FMP_DATE_FORMAT start
      in for_symbols historical_price_full start_str end_str show_progress (length symbols)
           (zip [0..<length symbols] symbols) [] s)"





section \<open>ingest.py\<close>

text \<open>\<^verbatim>\<open>pd.Timedelta(days=n)\<close>, in nanoseconds.\<close>

definition Timedelta_days :: "int \<Rightarrow> int" where
  "Timedelta_days n = n * 86400000000000"

subsection \<open>gen_asset_metadata\<close>

text \<open>
  Modelled from the spec: numpy is not part of the repository. \<^verbatim>\<open>np.min\<close> and \<^verbatim>\<open>np.max\<close>
  over the dates of one group, the first and the last observed date of the spec; a group
  of \<^verbatim>\<open>groupby\<close> has at least one row.
\<close>

fun amin :: "timestamp list \<Rightarrow> timestamp" where
  "amin (d # ds) = fold min ds d"

fun amax :: "timestamp list \<Rightarrow> timestamp" where
  "amax (d # ds) = fold max ds d"

text \<open>
  Modelled from the spec: pandas' \<^verbatim>\<open>groupby\<close> and \<^verbatim>\<open>agg\<close> are not part of the
  repository. Line 24, \<^verbatim>\<open>data.groupby(by="symbol").agg({"date": [np.min, np.max]})\<close>:
  one row per distinct symbol of the rows (the spec: one row per symbol), the symbols in
  sorted order as \<^verbatim>\<open>groupby\<close> sorts its keys, each with the least and the greatest date
  of the rows of that symbol. Lines 26 and 27 read the two aggregates as \<^verbatim>\<open>amin\<close> and
  \<^verbatim>\<open>amax\<close>.
\<close>

definition groupby_symbol_agg :: "price_table \<Rightarrow> (string \<times> timestamp \<times> timestamp) list" where
  "groupby_symbol_agg data =
     (let rows = zip (symbol_col data) (date_col data)
      in map (\<lambda>k. let dates = map snd (filter (\<lambda>r. fst r = k) rows)
                  in (k, amin dates, amax dates))
           (sort (remdups (map fst rows))))"

text \<open>
  Line 32, \<^verbatim>\<open>data["end_date"].values + pd.Timedelta(days=1)\<close>, adds on the numpy array
  behind the column, whose cells are signed 64-bit integers of nanoseconds: a sum
  outside that range wraps around.
\<close>

definition wrap_int64 :: "int \<Rightarrow> int" where
  "wrap_int64 x = (x + 9223372036854775808) mod 18446744073709551616 - 9223372036854775808"

text \<open>
  \<^verbatim>\<open>gen_asset_metadata(data, show_progress, exchange)\<close>. Lines 25 to 29 turn the group
  keys into the column \<^verbatim>\<open>symbol\<close> and name the two aggregates \<^verbatim>\<open>start_date\<close> and
  \<^verbatim>\<open>end_date\<close>; lines 31 and 32 add the columns \<^verbatim>\<open>exchange\<close> and \<^verbatim>\<open>auto_close_date\<close>.
  The result is listed row by row.
\<close>

definition gen_asset_metadata ::
  "price_table \<Rightarrow> bool \<Rightarrow> string \<Rightarrow> 'w state \<Rightarrow> asset list \<times> 'w state" where
  "gen_asset_metadata data show_progress exchange s =
     (let s1 = (if show_progress then emit (LogbookInfo ''Generating asset metadata.'') s
                else s)
      in (map (\<lambda>(k, lo, hi).
                 \<lparr>asset_symbol = k, asset_start_date = lo, asset_end_date = hi,
                  asset_exchange = exchange,
                  asset_auto_close_date = wrap_int64 (hi + Timedelta_days 1)\<rparr>)
            (groupby_symbol_agg data), s1))"

subsection \<open>_format_price_history\<close>

text \<open>
  \<^verbatim>\<open>_format_price_history(price_history)\<close>. Line 40 reads the column \<^verbatim>\<open>adjClose\<close>
  (\<^verbatim>\<open>KeyError\<close> when there is none) and stores it as the column \<^verbatim>\<open>close\<close>, in place of
  one of that name or as a new last column; lines 43 to 45 drop every column whose name
  is not one of the five kept; lines 48 and 49 add a \<^verbatim>\<open>volume\<close> column of zeros when
  none is left.
\<close>

definition format_price_history :: "'i frame \<Rightarrow> pyexn + 'i frame" where
  "format_price_history price_history =
     (case map_of (columns price_history) ''adjClose'' of
        None \<Rightarrow> Inl (KeyError ''adjClose'')
      | Some adjClose \<Rightarrow>
          (let cols1 = AList.update ''close'' adjClose (columns price_history);
               cols_to_keep = [''open'', ''high'', ''low'', ''close'', ''volume''];
               cols_to_remove = filter (\<lambda>c. c \<notin> set cols_to_keep) (remdups (map fst cols1));
               cols2 = filter (\<lambda>(c, cells). c \<notin> set cols_to_remove) cols1;
               cols3 = (if ''volume'' \<notin> set (map fst cols2)
                        then cols2 @ [(''volume'',
                                       replicate (length (index price_history)) (Val (PInt 0)))]
                        else cols2)
           in Inr (price_history\<lparr>columns := cols3\<rparr>)))"

subsection \<open>_set_dates_for_calendar\<close>

text \<open>
  Modelled from the spec: pandas' \<^verbatim>\<open>set_index\<close> is not part of the repository. Line 66,
  \<^verbatim>\<open>set_index(["date", "symbol"], drop=True)\<close>: the two columns become the index, row by
  row (the spec: one row per (date, symbol)), and leave the columns.
\<close>

definition set_index :: "price_table \<Rightarrow> (timestamp \<times> string) frame" where
  "set_index t = \<lparr>index = zip (date_col t) (symbol_col t), columns = data_cols t\<rparr>"

text \<open>
  Modelled from the spec: pandas' \<^verbatim>\<open>sort_index\<close> is not part of the repository. Line 67,
  \<^verbatim>\<open>sort_index(level="date")\<close>: the rows in the order of their labels, by date and then
  by symbol, rows of equal label in the order they had.
\<close>

definition sort_index :: "('i::linorder) frame \<Rightarrow> 'i frame" where
  "sort_index f =
     \<lparr>index = sort (index f),
      columns = map (\<lambda>(c, cells). (c, map snd (sort_key fst (zip (index f) cells))))
                  (columns f)\<rparr>"

text \<open>
  Modelled from the spec: pandas' \<^verbatim>\<open>Index.duplicated\<close> is not part of the repository.
  \<^verbatim>\<open>Index.duplicated(keep='first')\<close> marks the same-day-same-symbol entries after the
  first: for each label, whether the same label stands at an earlier row; \<open>seen\<close> holds
  the labels of the earlier rows.
\<close>

fun duplicated_from :: "'i list \<Rightarrow> 'i list \<Rightarrow> bool list" where
  "duplicated_from seen [] = []"
| "duplicated_from seen (x # xs) = (x \<in> set seen) # duplicated_from (x # seen) xs"

definition duplicated :: "'i list \<Rightarrow> bool list" where
  "duplicated labels = duplicated_from [] labels"

text \<open>
  Modelled from the spec: pandas' selection by a boolean mask is not part of the
  repository. \<^verbatim>\<open>df[mask]\<close> is the table of the rows at which the mask is true, labels and
  cells alike.
\<close>

definition select_mask :: "bool list \<Rightarrow> 'a list \<Rightarrow> 'a list" where
  "select_mask flags xs = map snd (filter fst (zip flags xs))"

definition getitem_mask :: "bool list \<Rightarrow> 'i frame \<Rightarrow> 'i frame" where
  "getitem_mask flags f =
     \<lparr>index = select_mask flags (index f),
      columns = map (\<lambda>(c, cells). (c, select_mask flags cells)) (columns f)\<rparr>"

text \<open>
  Lines 70 and 71, the duplicate-index filter
  \<^verbatim>\<open>price_history[~price_history.index.duplicated(keep='first')]\<close>.
\<close>

definition drop_duplicated :: "'i frame \<Rightarrow> 'i frame" where
  "drop_duplicated price_history =
     getitem_mask (map Not (duplicated (index price_history))) price_history"

text \<open>
  Modelled from the spec: pandas' \<^verbatim>\<open>reindex\<close> is not part of the repository.
  \<^verbatim>\<open>DataFrame.reindex(labels)\<close>: one row per label asked for, in the order asked; the
  row of that label where the frame has one, a row of \<^verbatim>\<open>NaN\<close> where it has none (the
  spec: missing (date, symbol) cells become null placeholders). pandas refuses to reindex
  a frame whose index has a label twice.
\<close>

definition reindex :: "'i list \<Rightarrow> 'i frame \<Rightarrow> pyexn + 'i frame" where
  "reindex labels f =
     (if \<not> distinct (index f)
      then Inl (ValueError ''cannot reindex on an axis with duplicate labels'')
      else Inr \<lparr>index = labels,
                columns = map (\<lambda>(c, cells).
                                 (c, map (\<lambda>l. case map_of (zip (index f) cells) l of
                                                 None \<Rightarrow> NaN
                                               | Some v \<Rightarrow> v) labels))
                            (columns f)\<rparr>)"

text \<open>
  \<^verbatim>\<open>_set_dates_for_calendar(price_history, calendar, start, end, symbol_map)\<close>. The
  calendar is its method \<^verbatim>\<open>sessions_in_range\<close>, which is external; \<^verbatim>\<open>symbol_map\<close> is a
  \<^verbatim>\<open>Series\<close>, the list of its (label, symbol) pairs, and iterating it gives the symbols.
\<close>

definition set_dates_for_calendar ::
  "price_table \<Rightarrow> (timestamp \<Rightarrow> timestamp \<Rightarrow> timestamp list) \<Rightarrow> timestamp \<Rightarrow> timestamp
     \<Rightarrow> (int \<times> string) list \<Rightarrow> pyexn + (timestamp \<times> string) frame" where
  "set_dates_for_calendar price_history sessions_in_range start end symbol_map =
     (let sessions = sessions_in_range start end;
          price_history1 = sort_index (set_index price_history);
          price_history2 = drop_duplicated price_history1;
          indices = concat (map (\<lambda>date. map (\<lambda>symbol. (date, symbol)) (map snd symbol_map))
                              sessions)
      in reindex indices price_history2)"

subsection \<open>convert_price_to_df\<close>

text \<open>
  Lines 86 to 90, the table of one symbol. \<^verbatim>\<open>pd.DataFrame(price_history)\<close> and
  \<^verbatim>\<open>pd.to_datetime(...).dt.tz_localize("UTC")\<close> are pandas' and are parameters: the
  first builds a frame from the records or raises, the second turns a column of cells
  into timestamps or raises. \<^verbatim>\<open>price_history_df.date\<close> raises \<^verbatim>\<open>AttributeError\<close> when
  the frame has no column of that name. The two assignments store the \<^verbatim>\<open>symbol\<close> and
  \<^verbatim>\<open>date\<close> columns, in place of columns of those names if the records had them.
\<close>

definition symbol_table ::
  "(pyval \<Rightarrow> pyexn + nat frame) \<Rightarrow> (cell list \<Rightarrow> pyexn + timestamp list) \<Rightarrow> string \<Rightarrow> pyval
     \<Rightarrow> pyexn + price_table" where
  "symbol_table DataFrame to_datetime_utc symbol price_history =
     (case DataFrame price_history of
        Inl e \<Rightarrow> Inl e
      | Inr price_history_df \<Rightarrow>
          (case map_of (columns price_history_df) ''date'' of
             None \<Rightarrow> Inl (AttributeError ''date'')
           | Some dates \<Rightarrow>
               (case to_datetime_utc dates of
                  Inl e \<Rightarrow> Inl e
                | Inr timestamps \<Rightarrow>
                    Inr \<lparr>date_col = timestamps,
                         symbol_col = replicate (length (index price_history_df)) symbol,
                         data_cols = AList.delete ''date''
                                       (AList.delete ''symbol''
                                          (columns price_history_df))\<rparr>)))"

text \<open>
  Modelled from the spec: pandas' \<^verbatim>\<open>append\<close> is not part of the repository. Line 91,
  \<^verbatim>\<open>all_history.append(price_history_df)\<close>, makes the single table of the spec: the rows
  of the second table after those of the first, over the columns of both, with \<^verbatim>\<open>NaN\<close>
  where a table lacks a column. \<open>None\<close> is the \<^verbatim>\<open>pd.DataFrame()\<close> of line 82, which has
  no row and no column.
\<close>

definition append_tables :: "price_table option \<Rightarrow> price_table \<Rightarrow> price_table" where
  "append_tables all_history df =
     (case all_history of
        None \<Rightarrow> df
      | Some a \<Rightarrow>
          \<lparr>date_col = date_col a @ date_col df,
           symbol_col = symbol_col a @ symbol_col df,
           data_cols =
             map (\<lambda>(c, cells).
                    (c, cells @ (case map_of (data_cols df) c of
                                   None \<Rightarrow> replicate (length (date_col df)) NaN
                                 | Some cells' \<Rightarrow> cells')))
               (data_cols a)
             @ map (\<lambda>(c, cells'). (c, replicate (length (date_col a)) NaN @ cells'))
                 (filter (\<lambda>(c, cells'). map_of (data_cols a) c = None) (data_cols df))\<rparr>)"

text \<open>Lines 85 to 91, the loop over \<^verbatim>\<open>raw_price.keys()\<close>, on the symbols still to come.\<close>

fun for_raw_price ::
  "(pyval \<Rightarrow> pyexn + nat frame) \<Rightarrow> (cell list \<Rightarrow> pyexn + timestamp list)
     \<Rightarrow> raw_price_history \<Rightarrow> string list \<Rightarrow> price_table option
     \<Rightarrow> pyexn + price_table option" where
  "for_raw_price DataFrame to_datetime_utc raw_price [] all_history = Inr all_history"
| "for_raw_price DataFrame to_datetime_utc raw_price (symbol # symbols) all_history =
     (case map_of raw_price symbol of
        None \<Rightarrow> Inl (KeyError symbol)
      | Some price_history \<Rightarrow>
          (case symbol_table DataFrame to_datetime_utc symbol price_history of
             Inl e \<Rightarrow> Inl e
           | Inr price_history_df \<Rightarrow>
               for_raw_price DataFrame to_datetime_utc raw_price symbols
                 (Some (append_tables all_history price_history_df))))"

definition convert_price_to_df ::
  "(pyval \<Rightarrow> pyexn + nat frame) \<Rightarrow> (cell list \<Rightarrow> pyexn + timestamp list)
     \<Rightarrow> raw_price_history \<Rightarrow> pyexn + price_table option" where
  "convert_price_to_df DataFrame to_datetime_utc raw_price =
     for_raw_price DataFrame to_datetime_utc raw_price (map fst raw_price) None"

subsection \<open>parse_pricing_and_vol\<close>

text \<open>
  Modelled from the spec: pandas' \<^verbatim>\<open>xs\<close> is not part of the repository.
  \<^verbatim>\<open>data.xs(symbol, level="symbol")\<close>: the rows whose label has that symbol, labelled by
  their dates; \<^verbatim>\<open>KeyError\<close> when no label has it.
\<close>

definition xs_symbol :: "string \<Rightarrow> (timestamp \<times> string) frame \<Rightarrow> pyexn + timestamp frame" where
  "xs_symbol symbol f =
     (if symbol \<notin> snd ` set (index f) then Inl (KeyError symbol)
      else Inr \<lparr>index = map fst (filter (\<lambda>l. snd l = symbol) (index f)),
                columns = map (\<lambda>(c, cells).
                                 (c, select_mask (map (\<lambda>l. snd l = symbol) (index f)) cells))
                            (columns f)\<rparr>)"

text \<open>Lines 100 and 101, the loop over \<^verbatim>\<open>symbol_map.items()\<close> with its \<^verbatim>\<open>yield\<close>.\<close>

fun for_symbol_map :: "(timestamp \<times> string) frame \<Rightarrow> (int \<times> string) list \<Rightarrow> bars" where
  "for_symbol_map data [] = ([], None)"
| "for_symbol_map data ((asset_id, symbol) # rest) =
     (case xs_symbol symbol data of
        Inl e \<Rightarrow> ([], Some e)
      | Inr bar \<Rightarrow>
          (case for_symbol_map data rest of
             (yielded, ended) \<Rightarrow> ((asset_id, bar) # yielded, ended)))"

text \<open>
  \<^verbatim>\<open>parse_pricing_and_vol(data, calendar, start, end, symbol_map)\<close> is a generator; the
  model gives what running it to its end gives.
\<close>

definition parse_pricing_and_vol ::
  "price_table \<Rightarrow> (timestamp \<Rightarrow> timestamp \<Rightarrow> timestamp list) \<Rightarrow> timestamp \<Rightarrow> timestamp
     \<Rightarrow> (int \<times> string) list \<Rightarrow> bars" where
  "parse_pricing_and_vol data sessions_in_range start end symbol_map =
     (case set_dates_for_calendar data sessions_in_range start end symbol_map of
        Inl e \<Rightarrow> ([], Some e)
      | Inr data1 \<Rightarrow>
          (case format_price_history data1 of
             Inl e \<Rightarrow> ([], Some e)
           | Inr data2 \<Rightarrow> for_symbol_map data2 symbol_map))"

subsection \<open>ingest_fmp\<close>

text \<open>
  What \<^verbatim>\<open>ingest_fmp\<close> uses and the repository does not define: the API method of
  \<^verbatim>\<open>fmpsdk\<close>, the pandas functions named above, the clock behind
  \<^verbatim>\<open>pd.Timestamp.now(tz="UTC")\<close>, the calendar's \<^verbatim>\<open>sessions_in_range\<close>, and the
  \<^verbatim>\<open>write\<close> methods of the three sinks, each of which may raise and may change the
  world. The daily bar writer is handed the generator; it is given what the generator
  yields.
\<close>

record 'w externals =
  ext_historical_price_full :: "'w callable"
  ext_strftime :: "string \<Rightarrow> timestamp \<Rightarrow> string"
  ext_Timestamp_now :: "'w \<Rightarrow> timestamp"
  ext_DataFrame :: "pyval \<Rightarrow> pyexn + nat frame"
  ext_to_datetime_utc :: "cell list \<Rightarrow> pyexn + timestamp list"
  ext_sessions_in_range :: "timestamp \<Rightarrow> timestamp \<Rightarrow> timestamp list"
  ext_asset_db_writer_write :: "asset list \<Rightarrow> nat frame \<Rightarrow> 'w \<Rightarrow> pyexn option \<times> 'w"
  ext_daily_bar_writer_write :: "bars \<Rightarrow> bool \<Rightarrow> 'w \<Rightarrow> pyexn option \<times> 'w"
  ext_adjustment_writer_write :: "nat frame \<Rightarrow> nat frame \<Rightarrow> 'w \<Rightarrow> pyexn option \<times> 'w"

text \<open>A call of a sink: the call is recorded, and the sink raises or returns.\<close>

definition call_sink ::
  "event \<Rightarrow> ('w \<Rightarrow> pyexn option \<times> 'w) \<Rightarrow> 'w state \<Rightarrow> pyexn option \<times> 'w state" where
  "call_sink ev write s =
     (case write (world s) of (raised, w') \<Rightarrow> (raised, emit ev (s\<lparr>world := w'\<rparr>)))"

text \<open>
  Modelled from the spec: the \<^verbatim>\<open>DataFrame\<close> constructor is not part of the repository.
  \<^verbatim>\<open>pd.DataFrame(columns=names)\<close> has the named columns and no row (the spec:
  splits/dividends are always written empty).
\<close>

definition empty_frame :: "string list \<Rightarrow> nat frame" where
  "empty_frame names = \<lparr>index = [], columns = map (\<lambda>c. (c, [])) names\<rparr>"

text \<open>
  Modelled from the spec: the \<^verbatim>\<open>DataFrame\<close> constructor is not part of the repository.
  \<^verbatim>\<open>pd.DataFrame(data=[row], columns=names)\<close> has one row, a string under each name.
\<close>

definition one_row_frame :: "string list \<Rightarrow> string list \<Rightarrow> nat frame" where
  "one_row_frame row names =
     \<lparr>index = [0], columns = zip names (map (\<lambda>v. [Val (PStr v)]) row)\<rparr>"

text \<open>Lines 150 to 152, the two tables of the adjustments.\<close>

definition splits_df :: "nat frame" where
  "splits_df = empty_frame [''sid'', ''ratio'', ''effective_date'']"

definition dividends_df :: "nat frame" where
  "dividends_df =
     empty_frame [''sid'', ''record_date'', ''declared_date'', ''pay_date'', ''amount'',
                  ''ex_date'']"

text \<open>
  Lines 149 to 156, the last statement of \<^verbatim>\<open>ingest_fmp\<close>: the adjustment writer is
  called with the two tables.
\<close>

definition write_adjustments :: "'w externals \<Rightarrow> 'w state \<Rightarrow> pyexn option \<times> 'w state" where
  "write_adjustments ext s =
     call_sink (AdjustmentWrite splits_df dividends_df)
       (ext_adjustment_writer_write ext splits_df dividends_df) s"

text \<open>
  Lines 131 to 147: the asset metadata of the (symbol, date) columns
  (\<^verbatim>\<open>raw_data_df[["symbol", "date"]]\<close> raises \<^verbatim>\<open>KeyError\<close> on the frame without
  columns), the exchanges table, the call of the asset writer, then the call of the daily
  bar writer with the generator over \<^verbatim>\<open>asset_metadata.symbol\<close>, a \<^verbatim>\<open>Series\<close> labelled
  from zero.
\<close>

definition write_assets_and_prices ::
  "'w externals \<Rightarrow> bool \<Rightarrow> string list \<Rightarrow> timestamp \<Rightarrow> timestamp \<Rightarrow> price_table option
     \<Rightarrow> 'w state \<Rightarrow> pyexn option \<times> 'w state" where
  "write_assets_and_prices ext show_progress exchange start end raw_data_df s =
     (case raw_data_df of
        None \<Rightarrow> (Some (KeyError ''symbol''), s)
      | Some table \<Rightarrow>
          (case gen_asset_metadata (table\<lparr>data_cols := []\<rparr>) show_progress (hd exchange) s of
             (asset_metadata, s1) \<Rightarrow>
               (let exchanges = one_row_frame exchange
                                  [''exchange'', ''canonical_name'', ''country_code'']
                in case call_sink (AssetDbWrite asset_metadata exchanges)
                          (ext_asset_db_writer_write ext asset_metadata exchanges) s1 of
                     (Some e, s2) \<Rightarrow> (Some e, s2)
                   | (None, s2) \<Rightarrow>
                       (let symbol_map = zip (map int [0..<length asset_metadata])
                                           (map asset_symbol asset_metadata);
                            parsed_price = parse_pricing_and_vol table (ext_sessions_in_range ext)
                                             start end symbol_map
                        in call_sink (DailyBarWrite parsed_price show_progress)
                             (ext_daily_bar_writer_write ext parsed_price show_progress) s2))))"

text \<open>
  \<^verbatim>\<open>ingest_fmp\<close>. Of its arguments the body reads the three writers it calls, the
  calendar and \<^verbatim>\<open>show_progress\<close>; the writers and the calendar are in \<open>ext\<close>. The result
  is the exception that ends the run, if one does.
\<close>

definition ingest_fmp :: "'w externals \<Rightarrow> bool \<Rightarrow> 'w state \<Rightarrow> pyexn option \<times> 'w state" where
  "ingest_fmp ext show_progress s =
     (let exchange = [''US Equities'', ''NYSE'', ''US''];
          period = 100;
          stocks = [''QQQ'', ''SPY''];
          end = ext_Timestamp_now ext (world s);
          start = end - Timedelta_days period
      in case get_stocks_history (ext_historical_price_full ext) (ext_strftime ext) stocks start end
                True s of
           (Inl e, s1) \<Rightarrow> (Some e, s1)
         | (Inr raw_data, s1) \<Rightarrow>
             (case convert_price_to_df (ext_DataFrame ext) (ext_to_datetime_utc ext) raw_data of
                Inl e \<Rightarrow> (Some e, s1)
              | Inr raw_data_df \<Rightarrow>
                  (case write_assets_and_prices ext show_progress exchange start end
                          raw_data_df s1 of
                     (Some e, s2) \<Rightarrow> (Some e, s2)
                   | (None, s2) \<Rightarrow> write_adjustments ext s2)))"

text \<open>The tables the adjustment writer was called with, call by call.\<close>

fun adjustment_writes :: "event list \<Rightarrow> (nat frame \<times> nat frame) list" where
  "adjustment_writes [] = []"
| "adjustment_writes (AdjustmentWrite splits dividends # evs) =
     (splits, dividends) # adjustment_writes evs"
| "adjustment_writes (ev # evs) = adjustment_writes evs"

section \<open>Example inputs\<close>

text \<open>
  Concrete API methods for the runs evaluated below: one that raises an \<^verbatim>\<open>Exception\<close>
  on every call, one that answers every call with an empty dict, one that answers with
  one daily bar for the symbol asked for, and one that has a bar for \<^verbatim>\<open>SPY\<close> and an empty
  dict for every other symbol. None of them uses the state of the world.
\<close>

definition always_failing :: "unit callable" where
  "always_failing p w = (Inl (ExnObj True ''boom''), w)"


definition one_bar :: "unit callable" where
  "one_bar p w =
     (Inr (PDict [(''symbol'', dict_get p ''symbol'' PNone),
                  (''historical'', PList [PDict [(''date'', PStr ''2021-03-01''),
                                                 (''adjClose'', PInt 310)]])]), w)"


definition fixed_date :: "string \<Rightarrow> timestamp \<Rightarrow> string" where
  "fixed_date fmt t = ''2021-03-01''"

text \<open>
  For a run of \<^verbatim>\<open>ingest_fmp\<close>: a frame constructor for a list of records with the keys of
  the first record, a date parser that reads every cell as 2021-03-01, and externals
  whose clock stands at 2021-03-02, whose calendar has the one session 2021-03-01 and
  whose sinks never raise.
\<close>

fun record_cell :: "string \<Rightarrow> pyval \<Rightarrow> cell" where
  "record_cell k (PDict d) = (case map_of d k of None \<Rightarrow> NaN | Some v \<Rightarrow> Val v)"
| "record_cell k v = NaN"

fun records_frame :: "pyval \<Rightarrow> pyexn + nat frame" where
  "records_frame (PList (PDict d # records)) =
     Inr \<lparr>index = [0..<Suc (length records)],
          columns = map (\<lambda>k. (k, map (record_cell k) (PDict d # records))) (map fst d)\<rparr>"
| "records_frame v = Inl (ValueError ''DataFrame constructor not properly called!'')"

definition first_of_march :: "cell list \<Rightarrow> pyexn + timestamp list" where
  "first_of_march cells = Inr (map (\<lambda>c. 1614556800000000000) cells)"

definition quiet_run :: "unit externals" where
  "quiet_run =
     \<lparr>ext_historical_price_full = one_bar,
      ext_strftime = fixed_date,
      ext_Timestamp_now = (\<lambda>w. 1614643200000000000),
      ext_DataFrame = records_frame,
      ext_to_datetime_utc = first_of_march,
      ext_sessions_in_range = (\<lambda>start end. [1614556800000000000]),
      ext_asset_db_writer_write = (\<lambda>equities exchanges w. (None, w)),
      ext_daily_bar_writer_write = (\<lambda>data show_progress w. (None, w)),
      ext_adjustment_writer_write = (\<lambda>splits dividends w. (None, w))\<rparr>"

text \<open>
  Two tables and a calendar: a flat price table with three rows for \<^verbatim>\<open>SPY\<close>, two of
  them of the same day, and one row for \<^verbatim>\<open>QQQ\<close>; a calendar of three sessions; an
  indexed table with an \<^verbatim>\<open>adjClose\<close> column, a \<^verbatim>\<open>close\<close> column and a column that is
  not kept.
\<close>

definition two_days :: price_table where
  "two_days =
     \<lparr>date_col = [1614643200000000000, 1614556800000000000, 1614556800000000000,
                 1614556800000000000],
      symbol_col = [''SPY'', ''QQQ'', ''SPY'', ''SPY''],
      data_cols = [(''adjClose'', [Val (PInt 390), Val (PInt 310), Val (PInt 380),
                                   Val (PInt 385)]),
                   (''open'', [Val (PInt 391), Val (PInt 311), Val (PInt 381),
                               Val (PInt 386)])]\<rparr>"


definition three_sessions :: "timestamp \<Rightarrow> timestamp \<Rightarrow> timestamp list" where
  "three_sessions start end = [1614556800000000000, 1614643200000000000, 1614729600000000000]"

definition indexed_bars :: "(timestamp \<times> string) frame" where
  "indexed_bars =
     \<lparr>index = [(1614556800000000000, ''QQQ''), (1614556800000000000, ''SPY'')],
      columns = [(''adjClose'', [Val (PInt 310), Val (PInt 380)]),
                 (''close'', [Val (PInt 312), Val (PInt 382)]),
                 (''label'', [Val (PStr ''a''), Val (PStr ''b'')])]\<rparr>"

section \<open>Properties of call_fmp\<close>

text \<open>
  One pass of the loop body never ends in \<open>Next\<close>: after a return \<^verbatim>\<open>str_error\<close> is
  \<^verbatim>\<open>None\<close> and the loop breaks; after a caught exception \<^verbatim>\<open>str_error\<close> is unbound and
  reading it raises.
\<close>

lemma attempt_eq:
  "attempt method params retries sleep_time x l s =
     (case method params (world s) of
        (Inr v, w') \<Rightarrow>
          (Break (l\<lparr>res := Some v, str_error := Some None\<rparr>),
           emit (Invoke params (Inr v)) (s\<lparr>world := w'\<rparr>))
      | (Inl e, w') \<Rightarrow>
          (if is_Exception e then
             (Raise (UnboundLocalError ''str_error''),
              emit (LoggingError (''FMP Request failed. '' @ exn_str e))
                (emit (Invoke params (Inl e)) (s\<lparr>world := w'\<rparr>)))
           else (Raise (Raised e), emit (Invoke params (Inl e)) (s\<lparr>world := w'\<rparr>))))"
  by (simp add: attempt_def if_str_error_def Let_def split: prod.splits sum.splits)

lemma call_fmp_eq:
  "call_fmp method params retries sleep_time s =
     (let params' = inject_apikey params
      in if retries \<le> 0 then (Inl (UnboundLocalError ''res''), params', s)
         else
           (case method params' (world s) of
              (Inr v, w') \<Rightarrow> (Inr v, params', emit (Invoke params' (Inr v)) (s\<lparr>world := w'\<rparr>))
            | (Inl e, w') \<Rightarrow>
                (if is_Exception e then
                   (Inl (UnboundLocalError ''str_error''), params',
                    emit (LoggingError (''FMP Request failed. '' @ exn_str e))
                      (emit (Invoke params' (Inl e)) (s\<lparr>world := w'\<rparr>)))
                 else (Inl (Raised e), params',
                       emit (Invoke params' (Inl e)) (s\<lparr>world := w'\<rparr>)))))"
proof (cases "retries \<le> 0")
  case True
  then show ?thesis
    by (simp add: call_fmp_def Let_def)
next
  case False
  then have r: "[0..retries - 1] = 0 # [1..retries - 1]"
    by (simp add: upto_rec1)
  show ?thesis
    using False
    by (simp add: call_fmp_def Let_def r attempt_eq split: prod.splits sum.splits)
qed

lemma invocations_emit:
  "invocations (emit ev s) = invocations s + (if is_Invoke ev then 1 else 0)"
  by (simp add: invocations_def emit_def)

lemma invocations_world [simp]: "invocations (s\<lparr>world := w\<rparr>) = invocations s"
  by (simp add: invocations_def)

text \<open>
  C3. For every retries value, \<^verbatim>\<open>call_fmp\<close> invokes the supplied method at most
  \<^verbatim>\<open>retries\<close> times, whether the call ends by returning or by an exception that
  reaches the caller (no invocation at all when \<^verbatim>\<open>retries\<close> is zero or negative).
\<close>

theorem call_fmp_invokes_at_most_retries:
  "invocations (snd (snd (call_fmp method params retries sleep_time s)))
     \<le> invocations s + nat retries"
  by (auto simp add: call_fmp_eq Let_def invocations_emit split: prod.splits sum.splits)

text \<open>
  C10. For \<^verbatim>\<open>retries = 0\<close> the method is never invoked and the call does not return
  normally: the state, with its record of invocations, is as before the call, and the
  call raises the \<^verbatim>\<open>UnboundLocalError\<close> of reading \<^verbatim>\<open>res\<close> at \<^verbatim>\<open>return res\<close>.
\<close>

theorem call_fmp_zero_retries:
  "call_fmp method params 0 sleep_time s =
     (Inl (UnboundLocalError ''res''), inject_apikey params, s)"
  by (simp add: call_fmp_eq Let_def)

text \<open>
  C9. \<^verbatim>\<open>call_fmp\<close> changes the caller's \<^verbatim>\<open>params\<close> dict in place: when \<^verbatim>\<open>"apikey"\<close> is
  absent or bound to a falsy value, the dict the call leaves behind is the caller's with
  \<^verbatim>\<open>"apikey"\<close> bound to the default key; when it is bound to a truthy value the dict is
  unchanged. This holds however the call ends.
\<close>

theorem call_fmp_apikey:
  "(map_of params ''apikey'' = None \<longrightarrow>
      fst (snd (call_fmp method params retries sleep_time s))
        = AList.update ''apikey'' (PStr FMP_API_KEY) params) \<and>
   (\<forall>v. map_of params ''apikey'' = Some v \<and> \<not> truthy v \<longrightarrow>
      fst (snd (call_fmp method params retries sleep_time s))
        = AList.update ''apikey'' (PStr FMP_API_KEY) params) \<and>
   (\<forall>v. map_of params ''apikey'' = Some v \<and> truthy v \<longrightarrow>
      fst (snd (call_fmp method params retries sleep_time s)) = params) \<and>
   (fst (snd (call_fmp method params retries sleep_time s)) \<noteq> params \<longrightarrow>
      map_of (fst (snd (call_fmp method params retries sleep_time s))) ''apikey''
        = Some (PStr FMP_API_KEY))"
  by (auto simp add: call_fmp_eq Let_def inject_apikey_def dict_get_def AList.update_conv'
      split: prod.splits sum.splits option.splits)

theorem call_fmp_apikey_witness:
  "fst (snd (call_fmp always_failing [] 2 70 \<lparr>world = (), trace = []\<rparr>))
     = [(''apikey'', PStr ''yourkeyhere'')]
   \<and> fst (snd (call_fmp always_failing [(''apikey'', PStr [])] 2 70
                  \<lparr>world = (), trace = []\<rparr>))
     = [(''apikey'', PStr ''yourkeyhere'')]
   \<and> fst (snd (call_fmp always_failing [(''apikey'', PStr ''k'')] 2 70
                  \<lparr>world = (), trace = []\<rparr>))
     = [(''apikey'', PStr ''k'')]"
  using call_fmp_apikey[of "[]" always_failing 2 70 "\<lparr>world = (), trace = []\<rparr>"]
    call_fmp_apikey[of "[(''apikey'', PStr [])]" always_failing 2 70
      "\<lparr>world = (), trace = []\<rparr>"]
    call_fmp_apikey[of "[(''apikey'', PStr ''k'')]" always_failing 2 70
      "\<lparr>world = (), trace = []\<rparr>"]
  by (simp add: FMP_API_KEY_def)


text \<open>
  C1. The claim is that, when every attempt raises, \<^verbatim>\<open>call_fmp\<close> logs and sleeps between
  attempts and finally re-raises the callable's last exception. The code does not: with
  \<^verbatim>\<open>retries = 2\<close> and a method that always raises \<^verbatim>\<open>Exception("boom")\<close>, the method is
  invoked once, the failure is logged, there is no sleep and no second attempt, and the
  exception that reaches the caller is the \<^verbatim>\<open>UnboundLocalError\<close> of reading
  \<^verbatim>\<open>str_error\<close>, not the callable's exception.
\<close>

theorem call_fmp_failing_run:
  "call_fmp always_failing [] 2 70 \<lparr>world = (), trace = []\<rparr> =
     (Inl (UnboundLocalError ''str_error''),
      [(''apikey'', PStr ''yourkeyhere'')],
      \<lparr>world = (),
       trace = [Invoke [(''apikey'', PStr ''yourkeyhere'')] (Inl (ExnObj True ''boom'')),
                LoggingError ''FMP Request failed. boom'']\<rparr>)"
  by (simp add: call_fmp_eq inject_apikey_def dict_get_def FMP_API_KEY_def
      always_failing_def emit_def Let_def)

text \<open>
  For every callable and every input: a call never sleeps, and the exception of a
  callable that is an \<^verbatim>\<open>Exception\<close> never reaches the caller.
\<close>

lemma sleeps_emit:
  "sleeps (emit ev s) = sleeps s + (if is_Sleep ev then 1 else 0)"
  by (simp add: sleeps_def emit_def)

lemma sleeps_world [simp]: "sleeps (s\<lparr>world := w\<rparr>) = sleeps s"
  by (simp add: sleeps_def)

lemma call_fmp_never_sleeps:
  "sleeps (snd (snd (call_fmp method params retries sleep_time s))) = sleeps s"
  by (auto simp add: call_fmp_eq Let_def sleeps_emit split: prod.splits sum.splits)

lemma call_fmp_never_reraises:
  "fst (call_fmp method params retries sleep_time s) = Inl (Raised e) \<Longrightarrow> \<not> is_Exception e"
  by (auto simp add: call_fmp_eq Let_def split: prod.splits sum.splits if_splits)

section \<open>Properties of get_stocks_history\<close>

lemma call_fmp_default:
  "call_fmp api params FMP_API_RETRIES FMP_API_SLEEP_TIME s =
     (case api (inject_apikey params) (world s) of
        (Inr v, w') \<Rightarrow>
          (Inr v, inject_apikey params,
           emit (Invoke (inject_apikey params) (Inr v)) (s\<lparr>world := w'\<rparr>))
      | (Inl e, w') \<Rightarrow>
          (if is_Exception e then
             (Inl (UnboundLocalError ''str_error''), inject_apikey params,
              emit (LoggingError (''FMP Request failed. '' @ exn_str e))
                (emit (Invoke (inject_apikey params) (Inl e)) (s\<lparr>world := w'\<rparr>)))
           else (Inl (Raised e), inject_apikey params,
                 emit (Invoke (inject_apikey params) (Inl e)) (s\<lparr>world := w'\<rparr>))))"
  by (simp add: call_fmp_eq FMP_API_RETRIES_def Let_def)

lemma trace_emit [simp]: "trace (emit ev s) = trace s @ [ev]"
  by (simp add: emit_def)










section \<open>Properties of ingest.py\<close>

subsection \<open>The duplicate-index filter\<close>

lemma length_duplicated_from [simp]: "length (duplicated_from seen xs) = length xs"
  by (induction xs arbitrary: seen) auto

lemma select_mask_simps [simp]:
  "select_mask [] xs = []"
  "select_mask flags [] = []"
  "select_mask (b # flags) (x # xs) = (if b then x # select_mask flags xs else select_mask flags xs)"
  by (simp_all add: select_mask_def)

lemma kept_labels:
  "set (select_mask (map Not (duplicated_from seen xs)) xs) \<inter> set seen = {} \<and>
   distinct (select_mask (map Not (duplicated_from seen xs)) xs) \<and>
   set (select_mask (map Not (duplicated_from seen xs)) xs) \<union> set seen = set xs \<union> set seen"
proof (induction xs arbitrary: seen)
  case Nil
  then show ?case by simp
next
  case (Cons x xs)
  from Cons.IH[of "x # seen"] show ?case
    by auto
qed

lemma duplicated_from_distinct:
  "distinct xs \<Longrightarrow> set xs \<inter> set seen = {} \<Longrightarrow>
   duplicated_from seen xs = replicate (length xs) False"
  by (induction xs arbitrary: seen) auto

lemma select_mask_all: "length xs \<le> n \<Longrightarrow> select_mask (replicate n True) xs = xs"
proof (induction xs arbitrary: n)
  case Nil
  then show ?case by simp
next
  case (Cons x xs)
  then obtain m where "n = Suc m" by (cases n) auto
  with Cons show ?case by simp
qed

lemma length_select_mask_le:
  "length flags \<le> length ys \<Longrightarrow> length (select_mask flags xs) \<le> length (select_mask flags ys)"
proof (induction flags arbitrary: xs ys)
  case Nil
  then show ?case by simp
next
  case (Cons b flags)
  then obtain y ys' where ys: "ys = y # ys'" by (cases ys) auto
  show ?case
  proof (cases xs)
    case Nil
    then show ?thesis by simp
  next
    case (Cons x xs')
    with Cons.IH[of ys' xs'] Cons.prems ys show ?thesis by simp
  qed
qed

lemma distinct_index_drop_duplicated: "distinct (index (drop_duplicated f))"
  using kept_labels[of "[]" "index f"]
  by (simp add: drop_duplicated_def getitem_mask_def duplicated_def)

text \<open>
  C4. Deduplication of the (date, symbol)-indexed price table is idempotent: for every
  table, applying the duplicate-index filter of lines 70 and 71 to its own output gives
  that output again.
\<close>

theorem drop_duplicated_idempotent:
  "drop_duplicated (drop_duplicated f) = drop_duplicated f"
proof -
  define flags where "flags = map Not (duplicated (index f))"
  define idx where "idx = select_mask flags (index f)"
  have len: "length flags = length (index f)"
    by (simp add: flags_def duplicated_def)
  have "distinct idx"
    using kept_labels[of "[]" "index f"] by (simp add: idx_def flags_def duplicated_def)
  then have again: "map Not (duplicated idx) = replicate (length idx) True"
    by (simp add: duplicated_def duplicated_from_distinct)
  have cells: "select_mask (replicate (length idx) True) (select_mask flags cells)
                 = select_mask flags cells" for cells :: "cell list"
    by (rule select_mask_all) (simp add: idx_def length_select_mask_le len)
  have first: "drop_duplicated f =
      \<lparr>index = idx, columns = map (\<lambda>(c, cells). (c, select_mask flags cells)) (columns f)\<rparr>"
    by (simp add: drop_duplicated_def getitem_mask_def flags_def idx_def)
  show ?thesis
    unfolding first
    by (simp add: drop_duplicated_def getitem_mask_def again select_mask_all cells
        case_prod_unfold)
qed

subsection \<open>_set_dates_for_calendar\<close>

lemma length_indices:
  "length (concat (map (\<lambda>date. map (\<lambda>symbol. (date, symbol)) symbols) sessions))
     = length sessions * length symbols"
  by (induction sessions) auto

lemma indices_product:
  "concat (map (\<lambda>date. map (\<lambda>symbol. (date, symbol)) symbols) sessions)
     = List.product sessions symbols"
  by (induction sessions) auto

text \<open>
  C5. For every price table, every calendar with N sessions in the range and every symbol
  map of M symbols, \<^verbatim>\<open>_set_dates_for_calendar\<close> returns a table, its rows are labelled by
  the (session, symbol) pairs, one row per pair in the order of the pairs, so it has
  exactly N times M rows, and every column has that many cells.
\<close>

theorem set_dates_for_calendar_rows:
  "\<exists>t. set_dates_for_calendar price_history sessions_in_range start end symbol_map = Inr t
       \<and> index t = List.product (sessions_in_range start end) (map snd symbol_map)
       \<and> length (index t) = length (sessions_in_range start end) * length symbol_map
       \<and> list_all (\<lambda>col. length (snd col)
                             = length (sessions_in_range start end) * length symbol_map)
            (columns t)"
proof -
  define indices where "indices =
      concat (map (\<lambda>date. map (\<lambda>symbol. (date, symbol)) (map snd symbol_map))
                (sessions_in_range start end))"
  have product: "indices = List.product (sessions_in_range start end) (map snd symbol_map)"
    unfolding indices_def by (rule indices_product)
  have len: "length indices = length (sessions_in_range start end) * length symbol_map"
    unfolding indices_def by (simp only: length_indices length_map)
  have "set_dates_for_calendar price_history sessions_in_range start end symbol_map
          = reindex indices (drop_duplicated (sort_index (set_index price_history)))"
    unfolding set_dates_for_calendar_def Let_def indices_def ..
  then show ?thesis
    using product len
    by (simp add: reindex_def distinct_index_drop_duplicated list_all_iff case_prod_unfold)
qed

theorem set_dates_for_calendar_rows_witness:
  "set_dates_for_calendar two_days three_sessions 0 0 [(0, ''QQQ''), (1, ''SPY'')]
   = Inr \<lparr>index = [(1614556800000000000, ''QQQ''), (1614556800000000000, ''SPY''),
                   (1614643200000000000, ''QQQ''), (1614643200000000000, ''SPY''),
                   (1614729600000000000, ''QQQ''), (1614729600000000000, ''SPY'')],
          columns = [(''adjClose'', [Val (PInt 310), Val (PInt 380), NaN, Val (PInt 390),
                                     NaN, NaN]),
                     (''open'', [Val (PInt 311), Val (PInt 381), NaN, Val (PInt 391),
                                 NaN, NaN])]\<rparr>"
proof -
  have run: "set_dates_for_calendar two_days three_sessions 0 0 [(0, ''QQQ''), (1, ''SPY'')]
     = Inr \<lparr>index = [(1614556800000000000, ''QQQ''), (1614556800000000000, ''SPY''),
                     (1614643200000000000, ''QQQ''), (1614643200000000000, ''SPY''),
                     (1614729600000000000, ''QQQ''), (1614729600000000000, ''SPY'')],
            columns = [(''adjClose'', [Val (PInt 310), Val (PInt 380), NaN, Val (PInt 390),
                                       NaN, NaN]),
                       (''open'', [Val (PInt 311), Val (PInt 381), NaN, Val (PInt 391),
                                   NaN, NaN])]\<rparr>"
    by code_simp
  from set_dates_for_calendar_rows[of two_days three_sessions 0 0
      "[(0, ''QQQ''), (1, ''SPY'')]"] run
  show ?thesis by simp
qed

subsection \<open>gen_asset_metadata\<close>












subsection \<open>_format_price_history\<close>

lemma map_of_drop_columns:
  "map_of cols k = Some v \<Longrightarrow> k \<notin> set remove \<Longrightarrow>
   map_of (filter (\<lambda>(c, cells). c \<notin> set remove) cols) k = Some v"
  by (induction cols) (auto split: if_splits)

text \<open>
  C7. For every price table that has an \<^verbatim>\<open>adjClose\<close> column, \<^verbatim>\<open>_format_price_history\<close>
  returns a table over the same rows whose \<^verbatim>\<open>close\<close> column is, cell for cell, the
  \<^verbatim>\<open>adjClose\<close> column of the input.
\<close>

theorem format_price_history_close:
  assumes "map_of (columns price_history) ''adjClose'' = Some adjClose"
  shows "\<exists>formatted. format_price_history price_history = Inr formatted
           \<and> map_of (columns formatted) ''close'' = Some adjClose
           \<and> index formatted = index price_history"
proof -
  define cols1 where "cols1 = AList.update ''close'' adjClose (columns price_history)"
  define cols_to_remove where "cols_to_remove =
      filter (\<lambda>c. c \<notin> set [''open'', ''high'', ''low'', ''close'', ''volume''])
        (remdups (map fst cols1))"
  define cols2 where "cols2 = filter (\<lambda>(c, cells). c \<notin> set cols_to_remove) cols1"
  define cols3 where "cols3 =
      (if ''volume'' \<notin> set (map fst cols2)
       then cols2 @ [(''volume'', replicate (length (index price_history)) (Val (PInt 0)))]
       else cols2)"
  have "map_of cols1 ''close'' = Some adjClose"
    by (simp add: cols1_def AList.update_conv')
  moreover have "''close'' \<notin> set cols_to_remove"
    by (simp add: cols_to_remove_def)
  ultimately have "map_of cols2 ''close'' = Some adjClose"
    unfolding cols2_def by (rule map_of_drop_columns)
  then have close: "map_of cols3 ''close'' = Some adjClose"
    by (simp add: cols3_def map_of_append del: set_map)
  have "format_price_history price_history = Inr (price_history\<lparr>columns := cols3\<rparr>)"
    unfolding format_price_history_def Let_def cols3_def cols2_def cols_to_remove_def cols1_def
    by (simp only: assms option.case)
  with close show ?thesis
    by simp
qed

theorem format_price_history_close_witness:
  "map_of (columns indexed_bars) ''adjClose'' = Some [Val (PInt 310), Val (PInt 380)]
   \<and> format_price_history indexed_bars
       = Inr \<lparr>index = [(1614556800000000000, ''QQQ''), (1614556800000000000, ''SPY'')],
              columns = [(''close'', [Val (PInt 310), Val (PInt 380)]),
                         (''volume'', [Val (PInt 0), Val (PInt 0)])]\<rparr>"
proof -
  have adj: "map_of (columns indexed_bars) ''adjClose'' = Some [Val (PInt 310), Val (PInt 380)]"
    by (simp add: indexed_bars_def)
  have run: "format_price_history indexed_bars
       = Inr \<lparr>index = [(1614556800000000000, ''QQQ''), (1614556800000000000, ''SPY'')],
              columns = [(''close'', [Val (PInt 310), Val (PInt 380)]),
                         (''volume'', [Val (PInt 0), Val (PInt 0)])]\<rparr>"
    by code_simp
  from format_price_history_close[OF adj] adj run show ?thesis by simp
qed

subsection \<open>ingest_fmp\<close>

text \<open>
  Nothing before the last statement of \<^verbatim>\<open>ingest_fmp\<close> calls the adjustment writer.
\<close>

lemma adjustment_writes_append [simp]:
  "adjustment_writes (xs @ ys) = adjustment_writes xs @ adjustment_writes ys"
  by (induction xs rule: adjustment_writes.induct) auto

lemma for_symbols_adjustment_writes:
  "for_symbols api a b sh n pairs hist s = (r, s') \<Longrightarrow>
   adjustment_writes (trace s') = adjustment_writes (trace s)"
proof (induction pairs arbitrary: hist s)
  case Nil
  then show ?case by simp
next
  case (Cons p pairs)
  obtain ix symbol where p: "p = (ix, symbol)" by (cases p)
  define s1 where "s1 = (if sh then emit (LoggingInfo (str_nat ix @ ''/'' @ str_nat n)) s else s)"
  define params where "params = inject_apikey [(''from_date'', PStr a), (''to_date'', PStr b),
                    (''symbol'', PStr symbol)]"
  have s1: "adjustment_writes (trace s1) = adjustment_writes (trace s)"
    by (simp add: s1_def)
  obtain outcome w' where api: "api params (world s1) = (outcome, w')"
    by (cases "api params (world s1)")
  define s2 where "s2 = emit (Invoke params outcome) (s1\<lparr>world := w'\<rparr>)"
  have s2: "adjustment_writes (trace s2) = adjustment_writes (trace s)"
    using s1 by (simp add: s2_def)
  show ?case
  proof (cases outcome)
    case (Inl e)
    with Cons.prems api
    have "s' = s2 \<or> s' = emit (LoggingError (''FMP Request failed. '' @ exn_str e)) s2"
      unfolding p s2_def
      by (simp add: call_fmp_default Let_def s1_def[symmetric] params_def[symmetric]
          split: if_splits)
    with s2 show ?thesis by auto
  next
    case (Inr v)
    with Cons.prems api
    have "(\<exists>hist2. for_symbols api a b sh n pairs hist2 s2 = (r, s')) \<or> s' = s2"
      unfolding p s2_def
      by (auto simp add: call_fmp_default Let_def s1_def[symmetric] params_def[symmetric]
          split: if_splits sum.splits)
    then show ?thesis
      using s2 by (auto dest!: Cons.IH)
  qed
qed

lemma get_stocks_history_adjustment_writes:
  "get_stocks_history api strftime symbols start end show_progress s = (r, s') \<Longrightarrow>
   adjustment_writes (trace s') = adjustment_writes (trace s)"
  unfolding get_stocks_history_def Let_def by (rule for_symbols_adjustment_writes)

lemma call_sink_trace:
  "call_sink ev write s = (r, s') \<Longrightarrow> trace s' = trace s @ [ev]"
  by (auto simp: call_sink_def split: prod.splits)

lemma gen_asset_metadata_adjustment_writes:
  "gen_asset_metadata data show_progress exchange s = (r, s') \<Longrightarrow>
   adjustment_writes (trace s') = adjustment_writes (trace s)"
  by (auto simp: gen_asset_metadata_def Let_def split: if_splits)

lemma write_assets_and_prices_adjustment_writes:
  assumes "write_assets_and_prices ext show_progress exchange start end raw_data_df s = (r, s')"
  shows "adjustment_writes (trace s') = adjustment_writes (trace s)"
proof (cases raw_data_df)
  case None
  with assms show ?thesis by (simp add: write_assets_and_prices_def)
next
  case (Some table)
  obtain asset_metadata s1 where
    g: "gen_asset_metadata (table\<lparr>data_cols := []\<rparr>) show_progress (hd exchange) s
          = (asset_metadata, s1)"
    by (cases "gen_asset_metadata (table\<lparr>data_cols := []\<rparr>) show_progress (hd exchange) s")
  note s1 = gen_asset_metadata_adjustment_writes[OF g]
  define exchanges where
    "exchanges = one_row_frame exchange [''exchange'', ''canonical_name'', ''country_code'']"
  obtain r2 s2 where
    a: "call_sink (AssetDbWrite asset_metadata exchanges)
          (ext_asset_db_writer_write ext asset_metadata exchanges) s1 = (r2, s2)"
    by (cases "call_sink (AssetDbWrite asset_metadata exchanges)
          (ext_asset_db_writer_write ext asset_metadata exchanges) s1")
  from call_sink_trace[OF a] s1
  have s2: "adjustment_writes (trace s2) = adjustment_writes (trace s)" by simp
  show ?thesis
  proof (cases r2)
    case (Some e)
    with assms \<open>raw_data_df = Some table\<close> g a have "s' = s2"
      by (simp add: write_assets_and_prices_def Let_def exchanges_def[symmetric])
    with s2 show ?thesis by simp
  next
    case None
    with assms \<open>raw_data_df = Some table\<close> g a obtain ev wr where
      "call_sink ev wr s2 = (r, s')" and "adjustment_writes [ev] = []"
      by (auto simp add: write_assets_and_prices_def Let_def exchanges_def[symmetric])
    with call_sink_trace[of ev wr s2 r s'] s2 show ?thesis by simp
  qed
qed

text \<open>
  C8. On every run of \<^verbatim>\<open>ingest_fmp\<close>, whatever the API returns and whatever the sinks
  do, the adjustment writer is called at most once, a run that ends without an exception
  calls it, and the tables passed to it for splits and for dividends are the two empty
  tables: their column headers and no row.
\<close>

theorem ingest_fmp_adjustments_empty:
  "(adjustment_writes (trace (snd (ingest_fmp ext show_progress s)))
      = adjustment_writes (trace s)
    \<or> adjustment_writes (trace (snd (ingest_fmp ext show_progress s)))
      = adjustment_writes (trace s) @ [(splits_df, dividends_df)])
   \<and> (fst (ingest_fmp ext show_progress s) = None \<longrightarrow>
        adjustment_writes (trace (snd (ingest_fmp ext show_progress s)))
          = adjustment_writes (trace s) @ [(splits_df, dividends_df)])
   \<and> index splits_df = [] \<and> list_all (\<lambda>col. snd col = []) (columns splits_df)
   \<and> map fst (columns splits_df) = [''sid'', ''ratio'', ''effective_date'']
   \<and> index dividends_df = [] \<and> list_all (\<lambda>col. snd col = []) (columns dividends_df)
   \<and> map fst (columns dividends_df)
       = [''sid'', ''record_date'', ''declared_date'', ''pay_date'', ''amount'', ''ex_date'']"
proof -
  define now where "now = ext_Timestamp_now ext (world s)"
  define start where "start = now - Timedelta_days 100"
  obtain r1 s1 where
    g: "get_stocks_history (ext_historical_price_full ext) (ext_strftime ext)
          [''QQQ'', ''SPY''] start now True s = (r1, s1)"
    by (cases "get_stocks_history (ext_historical_price_full ext) (ext_strftime ext)
          [''QQQ'', ''SPY''] start now True s")
  note s1 = get_stocks_history_adjustment_writes[OF g]
  have run: "(adjustment_writes (trace (snd (ingest_fmp ext show_progress s)))
      = adjustment_writes (trace s) \<and> fst (ingest_fmp ext show_progress s) \<noteq> None)
    \<or> adjustment_writes (trace (snd (ingest_fmp ext show_progress s)))
      = adjustment_writes (trace s) @ [(splits_df, dividends_df)]"
  proof (cases r1)
    case (Inl e)
    with g s1 show ?thesis
      by (simp add: ingest_fmp_def Let_def now_def[symmetric] start_def[symmetric])
  next
    case (Inr raw_data)
    show ?thesis
    proof (cases "convert_price_to_df (ext_DataFrame ext) (ext_to_datetime_utc ext) raw_data")
      case (Inl e)
      with g s1 \<open>r1 = Inr raw_data\<close> show ?thesis
        by (simp add: ingest_fmp_def Let_def now_def[symmetric] start_def[symmetric])
    next
      case c: (Inr raw_data_df)
      obtain r2 s2 where
        w: "write_assets_and_prices ext show_progress [''US Equities'', ''NYSE'', ''US'']
              start now raw_data_df s1 = (r2, s2)"
        by (cases "write_assets_and_prices ext show_progress [''US Equities'', ''NYSE'', ''US'']
              start now raw_data_df s1")
      from write_assets_and_prices_adjustment_writes[OF w] s1
      have s2: "adjustment_writes (trace s2) = adjustment_writes (trace s)" by simp
      show ?thesis
      proof (cases r2)
        case (Some e)
        with g c w s2 \<open>r1 = Inr raw_data\<close> show ?thesis
          by (simp add: ingest_fmp_def Let_def now_def[symmetric] start_def[symmetric])
      next
        case None
        obtain r3 s3 where a: "write_adjustments ext s2 = (r3, s3)"
          by (cases "write_adjustments ext s2")
        then have "trace s3 = trace s2 @ [AdjustmentWrite splits_df dividends_df]"
          unfolding write_adjustments_def by (rule call_sink_trace)
        with g c w s2 None a \<open>r1 = Inr raw_data\<close> show ?thesis
          by (simp add: ingest_fmp_def Let_def now_def[symmetric] start_def[symmetric])
      qed
    qed
  qed
  have tables: "index splits_df = [] \<and> list_all (\<lambda>col. snd col = []) (columns splits_df)
   \<and> map fst (columns splits_df) = [''sid'', ''ratio'', ''effective_date'']
   \<and> index dividends_df = [] \<and> list_all (\<lambda>col. snd col = []) (columns dividends_df)
   \<and> map fst (columns dividends_df)
       = [''sid'', ''record_date'', ''declared_date'', ''pay_date'', ''amount'', ''ex_date'']"
    by (simp add: splits_df_def dividends_df_def empty_frame_def)
  from run tables show ?thesis
    by blast
qed

theorem ingest_fmp_adjustments_empty_witness:
  "fst (ingest_fmp quiet_run False \<lparr>world = (), trace = []\<rparr>) = None
   \<and> adjustment_writes (trace (snd (ingest_fmp quiet_run False \<lparr>world = (), trace = []\<rparr>)))
       = [(splits_df, dividends_df)]"
proof -
  have ok: "fst (ingest_fmp quiet_run False \<lparr>world = (), trace = []\<rparr>) = None"
    by code_simp
  from ingest_fmp_adjustments_empty[of quiet_run False "\<lparr>world = (), trace = []\<rparr>"] ok
  show ?thesis by simp
qed

end
